theory Spec2Isabelle
  imports Main "HOL-Library.AList"
begin

section \<open>The remote kernel picker (src/lib/ws-kernel-picker.ts)\<close>

text \<open>
  The picker is one class, \<^verbatim>\<open>WSKernelPicker\<close>, whose methods talk to four
  collaborators: the select list (\<^verbatim>\<open>CustomListView\<close>), the text prompt
  (\<^verbatim>\<open>InputView\<close>), the notification area and the Jupyter client library.
  The embedding keeps the methods and their names. Every call to a collaborator is
  written to a log of events, in the order the calls happen; every value that comes
  back from a collaborator (a reply of the gateway, the item the user confirms, the
  text the user types) is read from an environment, as a function of the log so
  far, so that two calls of the same operation may answer differently. Every
  awaited call settles: the environment always answers, with a value or with a
  failure. A rejected promise is the outcome \<open>Threw\<close>.
\<close>

subsection \<open>Connection options and transport factories\<close>

text \<open>
  The two factory hooks are JavaScript closures. The picker installs three of them:
  the defaults of \<^verbatim>\<open>onGateway\<close> and the pair of \<^verbatim>\<open>promptForCookie\<close>, which
  closes over the cookie. A hook that the gateway's configuration brought along is
  opaque.
\<close>

datatype xhr_factory =
    DefaultXhr
  | CookieXhr
  | ConfiguredXhr nat

datatype ws_factory =
    DefaultWs
  | CookieWs string
  | ConfiguredWs nat

text \<open>
  \<^verbatim>\<open>KernelGatewayOptions\<close>: every field may be undefined (\<open>None\<close>). The request
  headers are a JavaScript object, kept as an association list in insertion order.
\<close>

record options =
  baseUrl :: "string option"
  token :: "string option"
  requestHeaders :: "(string \<times> string) list option"
  xhrFactory :: "xhr_factory option"
  wsFactory :: "ws_factory option"

text \<open>\<^verbatim>\<open>interface KernelGateway { name; options }\<close>\<close>

record gateway =
  gateway_name :: string
  gateway_options :: options

text \<open>
  \<^verbatim>\<open>ServerConnection.makeSettings(gatewayOptions)\<close> builds the settings object from
  the options as they are at the time of the call.
\<close>

datatype server_settings = ServerSettings options

definition makeSettings :: "options \<Rightarrow> server_settings" where
  "makeSettings gatewayOptions = ServerSettings gatewayOptions"

subsection \<open>What the gateway answers\<close>

text \<open>
  A failure of the client library is an error object that may carry the request
  (\<^verbatim>\<open>error.xhr\<close>), which in turn may carry a response text and a status.
\<close>

record xml_http_request =
  responseText :: "string option"
  status :: int

record js_error =
  message :: string
  xhr :: "xml_http_request option"

datatype 'a outcome = Returned 'a | Threw js_error

record spec_model =
  spec_name :: string
  display_name :: string

text \<open>
  \<^verbatim>\<open>Kernel.ISpecModels\<close>: \<^verbatim>\<open>kernelspecs\<close> is an object from names to spec models;
  lodash's \<^verbatim>\<open>_.filter\<close> and \<^verbatim>\<open>_.map\<close> walk its values in key order.
\<close>

record spec_models =
  default_spec :: string
  kernelspecs :: "(string \<times> spec_model) list"

record kernel_model =
  kernel_id :: string
  kernel_name :: "string option"

record session_model =
  session_id :: string
  session_path :: "string option"
  notebook_path :: "string option"
  kernel :: "kernel_model option"

record live_session =
  live_id :: string
  live_kernel :: string

subsection \<open>Items of the select list\<close>

text \<open>
  \<^verbatim>\<open>SessionInfoWithModel\<close> and \<^verbatim>\<open>SessionInfoWithoutModel\<close> are told apart by
  the \<^verbatim>\<open>model\<close> field at run time, so both are one record here.
\<close>

record session_info =
  info_name :: "string option"
  info_model :: "session_model option"
  info_options :: server_settings
  info_kernelSpecs :: "spec_model list option"

record start_options =
  serverSettings :: server_settings
  kernelName :: string
  path :: string

datatype item =
    GatewayItem gateway
  | ActionItem string string
  | SessionItem session_info
  | KernelItem string start_options

text \<open>
  The argument of \<^verbatim>\<open>selectListView.update\<close>. A message that the call does not
  mention is \<open>None\<close>, one that it sets to null is \<open>Some None\<close>.
\<close>

record update_props =
  items :: "item list"
  infoMessage :: "string option option"
  loadingMessage :: "string option option"
  emptyMessage :: "string option option"
  errorMessage :: "string option option"

record resolved_kernel =
  gatewayName :: string
  kernelSpec :: spec_model
  grammar :: string
  session :: live_session

subsection \<open>Events, environment and picker state\<close>

datatype event =
    SetPreviouslyFocusedElement
  | AddError string
  | Update update_props
  | Show
  | Cancel
  | InputAttach string
  | GetSpecs server_settings
  | ListRunning server_settings
  | ConnectTo string server_settings
  | StartNew start_options
  | GetSpec live_session
  | Chosen resolved_kernel

text \<open>
  The collaborators. \<open>chooser_reply\<close> is what the user does with the list that is
  on screen: confirm an item, or cancel (\<open>None\<close>). \<open>input_reply\<close> is what the
  user does with the text prompt: submit a text, or cancel (\<open>None\<close>).
\<close>

record env =
  config_gateways :: "gateway list option"
  store_filePath :: "string option"
  store_grammar :: "string option"
  uuid_v4 :: "event list \<Rightarrow> string"
  tildify :: "string \<Rightarrow> string"
  Kernel_getSpecs :: "event list \<Rightarrow> server_settings \<Rightarrow> js_error + spec_models"
  Session_listRunning :: "event list \<Rightarrow> server_settings \<Rightarrow> js_error + session_model list"
  Session_connectTo :: "event list \<Rightarrow> string \<Rightarrow> server_settings \<Rightarrow> js_error + live_session"
  Session_startNew :: "event list \<Rightarrow> start_options \<Rightarrow> js_error + live_session"
  kernel_getSpec :: "event list \<Rightarrow> live_session \<Rightarrow> js_error + spec_model"
  chooser_reply :: "event list \<Rightarrow> item option"
  input_reply :: "event list \<Rightarrow> string \<Rightarrow> string option"

text \<open>The callbacks that the picker stores in \<^verbatim>\<open>listView.onConfirmed\<close> and \<^verbatim>\<open>onCancelled\<close>.\<close>

datatype handler =
    OnGateway
  | OnSession string
  | StartSession string
  | ResolveAction
  | ResolveCancel

record picker =
  kernelSpecFilter :: "spec_model \<Rightarrow> bool"
  picker_path :: string
  onConfirmed :: "handler option"
  onCancelled :: "handler option"
  events :: "event list"

definition emit :: "event \<Rightarrow> picker \<Rightarrow> picker" where
  "emit e p = p\<lparr>events := events p @ [e]\<rparr>"

subsection \<open>JavaScript helpers\<close>

text \<open>A string is truthy when it is defined and not empty.\<close>

fun truthy :: "string option \<Rightarrow> bool" where
  "truthy None = False"
| "truthy (Some s) = (s \<noteq> [])"

text \<open>\<^verbatim>\<open>String.prototype.includes\<close>\<close>

fun str_includes :: "string \<Rightarrow> string \<Rightarrow> bool" where
  "str_includes [] sub = (sub = [])"
| "str_includes (c # cs) sub = (take (length sub) (c # cs) = sub \<or> str_includes cs sub)"

subsection \<open>The URL object and the WebSocket factories\<close>

text \<open>
  \<^verbatim>\<open>URL\<close> is the class of Node's \<^verbatim>\<open>url\<close> module. The factory reads and writes
  \<^verbatim>\<open>protocol\<close> and reads \<^verbatim>\<open>origin\<close> and \<^verbatim>\<open>host\<close>; the parser itself is a
  parameter (\<open>new_URL\<close>, \<open>None\<close> when the constructor throws). The class follows the
  WHATWG URL standard: assigning to \<^verbatim>\<open>protocol\<close> is ignored when it would move the
  URL between a special and a non-special scheme, or when the URL is a \<^verbatim>\<open>file:\<close>
  URL with an empty host; the origin of a URL is scheme, \<^verbatim>\<open>//\<close> and host for the
  schemes below, and the string \<^verbatim>\<open>null\<close> for every other one. \<^verbatim>\<open>ws\<close> and
  \<^verbatim>\<open>http\<close> share their default port, and so do \<^verbatim>\<open>wss\<close> and \<^verbatim>\<open>https\<close>, so
  the host (which includes the port) of a WebSocket URL is not touched by the
  assignment.
\<close>

record url =
  protocol :: string
  host :: string

definition special_protocols :: "string list" where
  "special_protocols = [''ftp:'', ''file:'', ''http:'', ''https:'', ''ws:'', ''wss:'']"

definition set_protocol :: "url \<Rightarrow> string \<Rightarrow> url" where
  "set_protocol u v =
     (if (protocol u \<in> set special_protocols) \<noteq> (v \<in> set special_protocols) then u
      else if protocol u = ''file:'' \<and> host u = [] then u
      else u\<lparr>protocol := v\<rparr>)"

definition origin :: "url \<Rightarrow> string" where
  "origin u =
     (if protocol u \<in> set [''ftp:'', ''http:'', ''https:'', ''ws:'', ''wss:'']
      then protocol u @ ''//'' @ host u else ''null'')"

text \<open>The arguments that reach the constructor of \<^verbatim>\<open>ws\<close>.\<close>

record ws_call =
  ws_url :: string
  ws_protocol :: "string list"
  ws_headers :: "(string \<times> string) list"
  ws_origin :: "string option"
  ws_host :: "string option"

text \<open>Lines 210 to 214: the URL that origin and host are read from.\<close>

definition sameOriginUrl :: "url \<Rightarrow> url" where
  "sameOriginUrl parsedUrl =
     (if protocol parsedUrl = ''wss:'' then set_protocol parsedUrl ''https:''
      else set_protocol parsedUrl ''http:'')"

text \<open>Lines 206 to 226: the factory that \<^verbatim>\<open>promptForCookie\<close> installs.\<close>

definition cookie_wsFactory ::
  "(string \<Rightarrow> url option) \<Rightarrow> string \<Rightarrow> string \<Rightarrow> string list \<Rightarrow> ws_call outcome" where
  "cookie_wsFactory new_URL cookie url protocols =
     (case new_URL url of
        None \<Rightarrow> Threw \<lparr>message = ''Invalid URL'', xhr = None\<rparr>
      | Some parsed \<Rightarrow>
          (let parsedUrl = sameOriginUrl parsed;
               headers = [(''Cookie'', cookie)]
           in Returned \<lparr>ws_url = url, ws_protocol = protocols, ws_headers = headers,
                ws_origin = Some (origin parsedUrl), ws_host = Some (host parsedUrl)\<rparr>))"

text \<open>Line 292: the default factory of \<^verbatim>\<open>onGateway\<close>.\<close>

definition default_wsFactory :: "string \<Rightarrow> string list \<Rightarrow> ws_call outcome" where
  "default_wsFactory url protocols =
     Returned \<lparr>ws_url = url, ws_protocol = protocols, ws_headers = [],
       ws_origin = None, ws_host = None\<rparr>"

text \<open>Calling a factory hook; \<open>configured\<close> stands for the hooks of the configuration.\<close>

fun call_wsFactory ::
  "(string \<Rightarrow> url option) \<Rightarrow> (nat \<Rightarrow> string \<Rightarrow> string list \<Rightarrow> ws_call outcome) \<Rightarrow>
   ws_factory \<Rightarrow> string \<Rightarrow> string list \<Rightarrow> ws_call outcome" where
  "call_wsFactory new_URL configured DefaultWs url protocols = default_wsFactory url protocols"
| "call_wsFactory new_URL configured (CookieWs cookie) url protocols =
     cookie_wsFactory new_URL cookie url protocols"
| "call_wsFactory new_URL configured (ConfiguredWs n) url protocols = configured n url protocols"

subsection \<open>toggle\<close>

definition gateway_props :: "gateway list \<Rightarrow> update_props" where
  "gateway_props gateways =
     \<lparr>items = map GatewayItem gateways,
      infoMessage = Some (Some ''Select a gateway''),
      loadingMessage = Some None,
      emptyMessage = Some (Some ''No gateways available''),
      errorMessage = None\<rparr>"

definition toggle :: "env \<Rightarrow> (spec_model \<Rightarrow> bool) \<Rightarrow> picker \<Rightarrow> picker" where
  "toggle env specFilter p0 =
     (let p1 = emit SetPreviouslyFocusedElement p0;
          p2 = p1\<lparr>kernelSpecFilter := specFilter\<rparr>;
          gateways = (case config_gateways env of None \<Rightarrow> [] | Some gs \<Rightarrow> gs)
      in if gateways = [] then emit (AddError ''No remote kernel gateways available'') p2
         else
           (let p3 = p2\<lparr>picker_path :=
                       (if truthy (store_filePath env)
                        then (case store_filePath env of Some f \<Rightarrow> f | None \<Rightarrow> [])
                        else ''unsaved'') @ ''-'' @ uuid_v4 env (events p2)\<rparr>;
                p4 = p3\<lparr>onConfirmed := Some OnGateway\<rparr>;
                p5 = emit (Update (gateway_props gateways)) p4
            in emit Show p5))"

subsection \<open>Credential negotiation\<close>

definition promptForText :: "env \<Rightarrow> string \<Rightarrow> picker \<Rightarrow> string option \<times> picker" where
  "promptForText env prompt p0 =
     (let p1 = emit Cancel p0;
          p2 = emit (InputAttach prompt) p1
      in case input_reply env (events p2) prompt of
           None \<Rightarrow> (None, p2)
         | Some response \<Rightarrow>
             if response = [] then (None, p2) else (Some response, emit Show p2))"

definition promptForCookie :: "env \<Rightarrow> options \<Rightarrow> picker \<Rightarrow> (bool \<times> options) \<times> picker" where
  "promptForCookie env opts p0 =
     (case promptForText env ''Cookie:'' p0 of
        (None, p1) \<Rightarrow> ((False, opts), p1)
      | (Some cookie, p1) \<Rightarrow>
          (let opts1 = (if requestHeaders opts = None then opts\<lparr>requestHeaders := Some []\<rparr>
                        else opts);
               opts2 = opts1\<lparr>requestHeaders :=
                         map_option (AList.update ''Cookie'' cookie) (requestHeaders opts1)\<rparr>;
               opts3 = opts2\<lparr>xhrFactory := Some CookieXhr\<rparr>;
               opts4 = opts3\<lparr>wsFactory := Some (CookieWs cookie)\<rparr>
           in ((True, opts4), p1)))"

definition promptForToken :: "env \<Rightarrow> options \<Rightarrow> picker \<Rightarrow> (bool \<times> options) \<times> picker" where
  "promptForToken env opts p0 =
     (case promptForText env ''Token:'' p0 of
        (None, p1) \<Rightarrow> ((False, opts), p1)
      | (Some tok, p1) \<Rightarrow> ((True, opts\<lparr>token := Some tok\<rparr>), p1))"

definition credential_items :: "item list" where
  "credential_items =
     [ActionItem ''Authenticate with a token'' ''token'',
      ActionItem ''Authenticate with a cookie'' ''cookie'',
      ActionItem ''Cancel'' ''cancel'']"

definition credential_props :: update_props where
  "credential_props =
     \<lparr>items = credential_items,
      infoMessage = Some (Some ''Connection to gateway failed. Your settings may be incorrect, the server may be unavailable, or you may lack sufficient privileges to complete the connection.''),
      loadingMessage = Some None,
      emptyMessage = Some None,
      errorMessage = None\<rparr>"

fun item_action :: "item \<Rightarrow> string option" where
  "item_action (ActionItem name action) = Some action"
| "item_action other = None"

text \<open>
  Cancelling the list runs \<^verbatim>\<open>didCancelSelection\<close>, which cancels the list view and
  then calls \<^verbatim>\<open>onCancelled\<close>, resolving the awaited action to \<^verbatim>\<open>"cancel"\<close>.
\<close>

definition promptForCredentials ::
  "env \<Rightarrow> options \<Rightarrow> picker \<Rightarrow> (bool \<times> options) \<times> picker" where
  "promptForCredentials env opts p0 =
     (let p1 = emit (Update credential_props) p0;
          p2 = p1\<lparr>onConfirmed := Some ResolveAction, onCancelled := Some ResolveCancel\<rparr>;
          (action, p3) = (case chooser_reply env (events p2) of
                            Some chosen \<Rightarrow> (item_action chosen, p2)
                          | None \<Rightarrow> (Some ''cancel'', emit Cancel p2))
      in if action = Some ''token'' then promptForToken env opts p3
         else if action = Some ''cookie'' then promptForCookie env opts p3
         else ((False, opts), emit Cancel p3))"

subsection \<open>Binding a session\<close>

definition onSessionChosen :: "env \<Rightarrow> string \<Rightarrow> live_session \<Rightarrow> picker \<Rightarrow> unit outcome \<times> picker" where
  "onSessionChosen env gateway chosen p0 =
     (let p1 = emit Cancel p0;
          p2 = emit (GetSpec chosen) p1
      in case kernel_getSpec env (events p2) chosen of
           Inl error \<Rightarrow> (Threw error, p2)
         | Inr spec \<Rightarrow>
             (case store_grammar env of
                None \<Rightarrow> (Returned (), p2)
              | Some g \<Rightarrow>
                  (Returned (),
                   emit (Chosen \<lparr>gatewayName = gateway, kernelSpec = spec, grammar = g,
                                 session = chosen\<rparr>) p2)))"

text \<open>
  The promise of \<^verbatim>\<open>onSessionChosen\<close> is dropped by both of its callers, so its
  rejection reaches nobody.
\<close>

definition onSessionWithModel :: "env \<Rightarrow> string \<Rightarrow> session_model \<Rightarrow> server_settings \<Rightarrow> picker \<Rightarrow> unit outcome \<times> picker" where
  "onSessionWithModel env gateway model settings p0 =
     (let p1 = emit (ConnectTo (session_id model) settings) p0
      in case Session_connectTo env (events p1) (session_id model) settings of
           Inl error \<Rightarrow> (Threw error, p1)
         | Inr connected \<Rightarrow> (Returned (), snd (onSessionChosen env gateway connected p1)))"

definition unsupported_props :: update_props where
  "unsupported_props =
     \<lparr>items = [],
      infoMessage = Some None,
      loadingMessage = Some None,
      emptyMessage = None,
      errorMessage = Some (Some ''This gateway does not support listing sessions'')\<rparr>"

definition kernelItem :: "server_settings \<Rightarrow> string \<Rightarrow> spec_model \<Rightarrow> item" where
  "kernelItem settings pth spec =
     KernelItem (display_name spec)
       \<lparr>serverSettings = settings, kernelName = spec_name spec, path = pth\<rparr>"

definition kernel_props :: "item list \<Rightarrow> update_props" where
  "kernel_props its =
     \<lparr>items = its,
      infoMessage = Some (Some ''Select a session''),
      loadingMessage = Some None,
      emptyMessage = Some (Some ''No kernel specs available''),
      errorMessage = None\<rparr>"

definition onSessionWitouthModel :: "env \<Rightarrow> string \<Rightarrow> session_info \<Rightarrow> picker \<Rightarrow> unit outcome \<times> picker" where
  "onSessionWitouthModel env gateway sessionInfo p0 =
     (let p1 = (if \<not> truthy (info_name sessionInfo) then emit (Update unsupported_props) p0
                else p0);
          its = map (kernelItem (info_options sessionInfo) (picker_path p1))
                  (case info_kernelSpecs sessionInfo of None \<Rightarrow> [] | Some specs \<Rightarrow> specs);
          p2 = p1\<lparr>onConfirmed := Some (StartSession gateway)\<rparr>
      in (Returned (), emit (Update (kernel_props its)) p2))"

definition onSession :: "env \<Rightarrow> string \<Rightarrow> session_info \<Rightarrow> picker \<Rightarrow> unit outcome \<times> picker" where
  "onSession env gateway sessionInfo p0 =
     (case info_model sessionInfo of
        None \<Rightarrow> onSessionWitouthModel env gateway sessionInfo p0
      | Some model \<Rightarrow> onSessionWithModel env gateway model (info_options sessionInfo) p0)"

definition startSession :: "env \<Rightarrow> string \<Rightarrow> start_options \<Rightarrow> picker \<Rightarrow> picker" where
  "startSession env gateway opts p0 =
     (let p1 = emit (StartNew opts) p0
      in case Session_startNew env (events p1) opts of
           Inl error \<Rightarrow> p1
         | Inr started \<Rightarrow> snd (onSessionChosen env gateway started p1))"

subsection \<open>onGateway\<close>

definition loading_props :: update_props where
  "loading_props =
     \<lparr>items = [],
      infoMessage = Some None,
      loadingMessage = Some (Some ''Loading sessions...''),
      emptyMessage = Some (Some ''No sessions available''),
      errorMessage = None\<rparr>"

text \<open>Lines 290 to 294: the gateway's options spread over the default factories.\<close>

definition seedOptions :: "options \<Rightarrow> options" where
  "seedOptions configured =
     configured
       \<lparr>xhrFactory := (case xhrFactory configured of None \<Rightarrow> Some DefaultXhr | Some f \<Rightarrow> Some f),
        wsFactory := (case wsFactory configured of None \<Rightarrow> Some DefaultWs | Some f \<Rightarrow> Some f)\<rparr>"

text \<open>\<^verbatim>\<open>await Kernel.getSpecs(serverSettings)\<close>\<close>

definition getSpecs :: "env \<Rightarrow> server_settings \<Rightarrow> picker \<Rightarrow> (js_error + spec_models) \<times> picker" where
  "getSpecs env settings p0 =
     (let p1 = emit (GetSpecs settings) p0
      in (Kernel_getSpecs env (events p1) settings, p1))"

text \<open>Lines 340 to 343: the filter on the running sessions.\<close>

definition keepSession :: "string list \<Rightarrow> session_model \<Rightarrow> bool" where
  "keepSession kernelNames model =
     (let name = (case kernel model of Some k \<Rightarrow> kernel_name k | None \<Rightarrow> None)
      in case name of
           None \<Rightarrow> True
         | Some n \<Rightarrow> if n \<noteq> [] then n \<in> set kernelNames else True)"

text \<open>Lines 344 to 360: the item of a running session.\<close>

definition sessionItem :: "env \<Rightarrow> server_settings \<Rightarrow> session_model \<Rightarrow> item" where
  "sessionItem env settings model =
     (let name =
            (if truthy (session_path model)
             then tildify env (case session_path model of Some s \<Rightarrow> s | None \<Rightarrow> [])
             else if truthy (notebook_path model)
             then tildify env (case notebook_path model of Some s \<Rightarrow> s | None \<Rightarrow> [])
             else ''Session '' @ session_id model)
      in SessionItem \<lparr>info_name = Some name, info_model = Some model,
           info_options = settings, info_kernelSpecs = None\<rparr>)"

definition newSession :: "server_settings \<Rightarrow> spec_model list \<Rightarrow> session_info" where
  "newSession settings kernelSpecs =
     \<lparr>info_name = Some ''[new session]'', info_model = None,
      info_options = settings, info_kernelSpecs = Some kernelSpecs\<rparr>"

definition session_props :: "item list \<Rightarrow> update_props" where
  "session_props its =
     \<lparr>items = its, infoMessage = None, loadingMessage = Some None,
      emptyMessage = None, errorMessage = None\<rparr>"

text \<open>
  Lines 338 to 385, the inner \<^verbatim>\<open>try\<close>: list the running sessions; a failure whose
  status is not 403 is thrown on. The promise of \<^verbatim>\<open>onSession\<close> is not awaited.
\<close>

definition listSessions :: "env \<Rightarrow> gateway \<Rightarrow> spec_model list \<Rightarrow> server_settings \<Rightarrow> picker \<Rightarrow> unit outcome \<times> picker" where
  "listSessions env gatewayInfo kernelSpecs settings p0 =
     (let kernelNames = map spec_name kernelSpecs;
          p1 = emit (ListRunning settings) p0
      in case Session_listRunning env (events p1) settings of
           Inr sessionModels \<Rightarrow>
             (let kept = filter (keepSession kernelNames) sessionModels;
                  its = SessionItem (newSession settings kernelSpecs)
                          # map (sessionItem env settings) kept;
                  p2 = p1\<lparr>onConfirmed := Some (OnSession (gateway_name gatewayInfo))\<rparr>
              in (Returned (), emit (Update (session_props its)) p2))
         | Inl error \<Rightarrow>
             (case xhr error of
                None \<Rightarrow> (Threw error, p1)
              | Some request \<Rightarrow>
                  if status request \<noteq> 403 then (Threw error, p1)
                  else (Returned (),
                        snd (onSession env (gateway_name gatewayInfo)
                               (newSession settings kernelSpecs) p1))))"

text \<open>
  Lines 327 to 389, the outer \<^verbatim>\<open>try\<close>: discover the kernel specs unless the first
  attempt already has them (lines 328 to 330, \<open>discover\<close>), filter them, list the
  sessions; whatever is thrown inside is reported and ends the resolution.
\<close>

definition discover :: "env \<Rightarrow> spec_models option \<Rightarrow> server_settings \<Rightarrow> picker \<Rightarrow> (js_error + spec_models) \<times> picker" where
  "discover env specModels settings p0 =
     (case specModels of
        Some known \<Rightarrow> (Inr known, p0)
      | None \<Rightarrow> getSpecs env settings p0)"

definition resolveSessions :: "env \<Rightarrow> gateway \<Rightarrow> spec_models option \<Rightarrow> server_settings \<Rightarrow> picker \<Rightarrow> unit outcome \<times> picker" where
  "resolveSessions env gatewayInfo specModels settings p0 =
     (let (found, p1) = discover env specModels settings p0;
          (done, p2) = (case found of
                          Inl error \<Rightarrow> (Threw error, p1)
                        | Inr models \<Rightarrow>
                            listSessions env gatewayInfo
                              (filter (kernelSpecFilter p1) (map snd (kernelspecs models)))
                              settings p1)
      in case done of
           Returned u \<Rightarrow> (Returned (), p2)
         | Threw e \<Rightarrow>
             (Returned (), emit Cancel (emit (AddError ''Connection to gateway failed'') p2)))"

text \<open>Lines 304 and 306: the two tests on the failure of the first discovery.\<close>

definition noPayload :: "js_error \<Rightarrow> bool" where
  "noPayload error =
     (case xhr error of None \<Rightarrow> True | Some request \<Rightarrow> \<not> truthy (responseText request))"

definition timedOut :: "js_error \<Rightarrow> bool" where
  "timedOut error =
     (case xhr error of
        None \<Rightarrow> False
      | Some request \<Rightarrow>
          (case responseText request of
             None \<Rightarrow> False
           | Some text \<Rightarrow> str_includes text ''ETIMEDOUT''))"

definition onGateway :: "env \<Rightarrow> gateway \<Rightarrow> picker \<Rightarrow> unit outcome \<times> picker" where
  "onGateway env gatewayInfo p0 =
     (let p1 = emit (Update loading_props) (p0\<lparr>onConfirmed := None\<rparr>);
          gatewayOptions = seedOptions (gateway_options gatewayInfo);
          settings = makeSettings gatewayOptions
      in case getSpecs env settings p1 of
           (Inr specModels, p2) \<Rightarrow>
             resolveSessions env gatewayInfo (Some specModels) settings p2
         | (Inl error, p2) \<Rightarrow>
             if noPayload error then (Threw error, p2)
             else if timedOut error
             then (Returned (),
                   emit Cancel (emit (AddError ''Connection to gateway failed'') p2))
             else
               (case promptForCredentials env gatewayOptions p2 of
                  ((False, unchanged), p3) \<Rightarrow> (Returned (), p3)
                | ((True, mutated), p3) \<Rightarrow>
                    resolveSessions env gatewayInfo None (makeSettings mutated)
                      (emit (Update loading_props) p3)))"

subsection \<open>What the user does next\<close>

text \<open>
  \<^verbatim>\<open>didConfirmSelection\<close> of the list view: the confirmed item goes to the callback
  in \<^verbatim>\<open>onConfirmed\<close>, if there is one. The two callbacks of
  \<^verbatim>\<open>promptForCredentials\<close> resolve a promise that is settled by then.
\<close>

fun didConfirmSelection :: "env \<Rightarrow> item \<Rightarrow> picker \<Rightarrow> picker" where
  "didConfirmSelection env chosen p =
     (case onConfirmed p of
        None \<Rightarrow> p
      | Some OnGateway \<Rightarrow>
          (case chosen of GatewayItem g \<Rightarrow> snd (onGateway env g p) | _ \<Rightarrow> p)
      | Some (OnSession gateway) \<Rightarrow>
          (case chosen of SessionItem info \<Rightarrow> snd (onSession env gateway info p) | _ \<Rightarrow> p)
      | Some (StartSession gateway) \<Rightarrow>
          (case chosen of KernelItem name opts \<Rightarrow> startSession env gateway opts p | _ \<Rightarrow> p)
      | Some ResolveAction \<Rightarrow> p
      | Some ResolveCancel \<Rightarrow> p)"

subsection \<open>Reading the log\<close>

text \<open>A negotiation round is one presentation of the three credential choices.\<close>

fun isNegotiation :: "event \<Rightarrow> bool" where
  "isNegotiation (Update props) = (items props = credential_items)"
| "isNegotiation e = False"

fun isGetSpecs :: "event \<Rightarrow> bool" where
  "isGetSpecs (GetSpecs settings) = True"
| "isGetSpecs e = False"

fun isAddError :: "event \<Rightarrow> bool" where
  "isAddError (AddError title) = True"
| "isAddError e = False"

fun isChosen :: "event \<Rightarrow> bool" where
  "isChosen (Chosen k) = True"
| "isChosen e = False"

definition negotiations :: "event list \<Rightarrow> nat" where
  "negotiations log = length (filter isNegotiation log)"

definition discoveries :: "event list \<Rightarrow> event list" where
  "discoveries log = filter isGetSpecs log"

definition reports :: "event list \<Rightarrow> event list" where
  "reports log = filter isAddError log"

text \<open>The events that a call added to the log, given the picker before and after it.\<close>

definition since :: "picker \<Rightarrow> picker \<Rightarrow> event list" where
  "since before after = drop (length (events before)) (events after)"

text \<open>Lines 290 to 298: the reply to the first discovery of \<^verbatim>\<open>onGateway\<close>.\<close>

definition firstSettings :: "gateway \<Rightarrow> server_settings" where
  "firstSettings gatewayInfo = makeSettings (seedOptions (gateway_options gatewayInfo))"

definition firstDiscovery :: "env \<Rightarrow> gateway \<Rightarrow> picker \<Rightarrow> (js_error + spec_models) \<times> picker" where
  "firstDiscovery env gatewayInfo p0 =
     getSpecs env (firstSettings gatewayInfo)
       (emit (Update loading_props) (p0\<lparr>onConfirmed := None\<rparr>))"

text \<open>
  The items on screen after a log: those of its last \<^verbatim>\<open>update\<close>. The session
  model that an item of the session list carries, if any.
\<close>

definition shownItems :: "event list \<Rightarrow> item list" where
  "shownItems log =
     fold (\<lambda>e shown. case e of Update props \<Rightarrow> items props | _ \<Rightarrow> shown) log []"

fun item_model :: "item \<Rightarrow> session_model option" where
  "item_model (SessionItem info) = info_model info"
| "item_model other = None"

subsection \<open>Reading the options and the sessions\<close>

text \<open>The value of a request header, and the fields and headers that stay defined.\<close>

definition header :: "options \<Rightarrow> string \<Rightarrow> string option" where
  "header opts k = (case requestHeaders opts of None \<Rightarrow> None | Some hs \<Rightarrow> map_of hs k)"

definition keepsFields :: "options \<Rightarrow> options \<Rightarrow> bool" where
  "keepsFields before after =
     ((baseUrl before \<noteq> None \<longrightarrow> baseUrl after \<noteq> None) \<and>
      (token before \<noteq> None \<longrightarrow> token after \<noteq> None) \<and>
      (requestHeaders before \<noteq> None \<longrightarrow> requestHeaders after \<noteq> None) \<and>
      (xhrFactory before \<noteq> None \<longrightarrow> xhrFactory after \<noteq> None) \<and>
      (wsFactory before \<noteq> None \<longrightarrow> wsFactory after \<noteq> None) \<and>
      (\<forall>k. header before k \<noteq> None \<longrightarrow> header after k \<noteq> None))"

text \<open>
  The kernel name of a running session, when it has one: the session has a kernel
  object and that object a name that is not empty.
\<close>

definition identifiableName :: "session_model \<Rightarrow> string option" where
  "identifiableName model =
     (case kernel model of
        None \<Rightarrow> None
      | Some k \<Rightarrow>
          (case kernel_name k of
             None \<Rightarrow> None
           | Some n \<Rightarrow> if n = [] then None else Some n))"

subsection \<open>Sample data\<close>

definition sample_picker :: picker where
  "sample_picker =
     \<lparr>kernelSpecFilter = (\<lambda>spec. True), picker_path = ''unsaved-0'',
      onConfirmed = None, onCancelled = None, events = []\<rparr>"

definition sample_options :: options where
  "sample_options =
     \<lparr>baseUrl = Some ''http://localhost:8888'', token = None, requestHeaders = None,
      xhrFactory = None, wsFactory = None\<rparr>"

definition sample_gateway :: gateway where
  "sample_gateway = \<lparr>gateway_name = ''local'', gateway_options = sample_options\<rparr>"

definition py_spec :: spec_model where
  "py_spec = \<lparr>spec_name = ''py'', display_name = ''py''\<rparr>"

definition sample_specs :: spec_models where
  "sample_specs = \<lparr>default_spec = ''py'', kernelspecs = [(''py'', py_spec)]\<rparr>"

definition sample_session :: "string \<Rightarrow> string option \<Rightarrow> session_model" where
  "sample_session ident name =
     \<lparr>session_id = ident, session_path = None, notebook_path = None,
      kernel = map_option (\<lambda>n. \<lparr>kernel_id = ident, kernel_name = Some n\<rparr>) name\<rparr>"

definition sample_sessions :: "session_model list" where
  "sample_sessions =
     [sample_session ''1'' (Some ''py''), sample_session ''2'' (Some ''r''),
      sample_session ''3'' None]"

definition failure :: "string option \<Rightarrow> int \<Rightarrow> js_error" where
  "failure text code =
     \<lparr>message = ''request failed'', xhr = Some \<lparr>responseText = text, status = code\<rparr>\<rparr>"

text \<open>
  A gateway that knows one kernel spec and three sessions, and a user who cancels
  every list and every prompt. The variants below change one reply each.
\<close>

definition sample_env :: env where
  "sample_env =
     \<lparr>config_gateways = Some [sample_gateway],
      store_filePath = None,
      store_grammar = Some ''source.python'',
      uuid_v4 = (\<lambda>log. ''0''),
      tildify = (\<lambda>s. s),
      Kernel_getSpecs = (\<lambda>log settings. Inr sample_specs),
      Session_listRunning = (\<lambda>log settings. Inr sample_sessions),
      Session_connectTo = (\<lambda>log ident settings. Inr \<lparr>live_id = ident, live_kernel = ''py''\<rparr>),
      Session_startNew = (\<lambda>log opts. Inr \<lparr>live_id = ''new'', live_kernel = kernelName opts\<rparr>),
      kernel_getSpec = (\<lambda>log s. Inr py_spec),
      chooser_reply = (\<lambda>log. None),
      input_reply = (\<lambda>log prompt. None)\<rparr>"

text \<open>The gateway rejects every discovery that carries no token.\<close>

definition guarded_getSpecs :: "js_error \<Rightarrow> event list \<Rightarrow> server_settings \<Rightarrow> js_error + spec_models" where
  "guarded_getSpecs error log settings =
     (case settings of ServerSettings opts \<Rightarrow>
        if token opts = None then Inl error else Inr sample_specs)"

text \<open>A parser that knows two WebSocket URLs, and users who answer the text prompt.\<close>

definition sample_URL :: "string \<Rightarrow> url option" where
  "sample_URL s =
     (if s = ''wss://gateway.example:8888/api/kernels/1/channels''
      then Some \<lparr>protocol = ''wss:'', host = ''gateway.example:8888''\<rparr>
      else if s = ''ws://localhost:8888/api/kernels/1/channels''
      then Some \<lparr>protocol = ''ws:'', host = ''localhost:8888''\<rparr>
      else None)"

definition typing_env :: "string \<Rightarrow> env" where
  "typing_env text = sample_env\<lparr>input_reply := (\<lambda>log prompt. Some text)\<rparr>"

text \<open>A gateway whose every discovery fails with the given error.\<close>

definition failing_env :: "js_error \<Rightarrow> env" where
  "failing_env error = sample_env\<lparr>Kernel_getSpecs := (\<lambda>log settings. Inl error)\<rparr>"


text \<open>
  A gateway that rejects every discovery, with a user who makes the given choice
  and types the given text; and a gateway that lets in whoever brings a token,
  with a user who picks the token strategy and types one.
\<close>

definition rejecting_env :: "js_error \<Rightarrow> item option \<Rightarrow> string option \<Rightarrow> env" where
  "rejecting_env error choice typed =
     sample_env\<lparr>Kernel_getSpecs := (\<lambda>log settings. Inl error),
                chooser_reply := (\<lambda>log. choice),
                input_reply := (\<lambda>log prompt. typed)\<rparr>"

definition token_item :: item where
  "token_item = ActionItem ''Authenticate with a token'' ''token''"

definition unlocking_env :: "js_error \<Rightarrow> env" where
  "unlocking_env error =
     sample_env\<lparr>Kernel_getSpecs := guarded_getSpecs error,
                chooser_reply := (\<lambda>log. Some token_item),
                input_reply := (\<lambda>log prompt. Some ''secret'')\<rparr>"

section \<open>Properties\<close>

subsection \<open>The log\<close>

lemma since_events: "events after = events before @ added \<Longrightarrow> since before after = added"
  by (simp add: since_def)

subsection \<open>toggle\<close>

text \<open>
  Claim C5. When the configured gateway list is empty (or not set at all),
  \<^verbatim>\<open>toggle\<close> reports one failure and returns: the only calls it makes are the
  focus bookkeeping and \<^verbatim>\<open>addError\<close>, so the chooser's items are not updated,
  \<^verbatim>\<open>show\<close> is not called and the confirmation callback is left as it was.
\<close>

theorem toggle_empty_gateways:
  assumes "config_gateways env = None \<or> config_gateways env = Some []"
  shows "since p (toggle env specFilter p) =
           [SetPreviouslyFocusedElement, AddError ''No remote kernel gateways available'']
         \<and> Show \<notin> set (since p (toggle env specFilter p))
         \<and> (\<forall>props. Update props \<notin> set (since p (toggle env specFilter p)))
         \<and> onConfirmed (toggle env specFilter p) = onConfirmed p"
proof -
  have "events (toggle env specFilter p) =
          events p @ [SetPreviouslyFocusedElement, AddError ''No remote kernel gateways available'']"
    using assms by (auto simp: toggle_def emit_def Let_def)
  then have added: "since p (toggle env specFilter p) =
          [SetPreviouslyFocusedElement, AddError ''No remote kernel gateways available'']"
    by (rule since_events)
  have "onConfirmed (toggle env specFilter p) = onConfirmed p"
    using assms by (auto simp: toggle_def emit_def Let_def)
  then show ?thesis unfolding added by simp
qed

theorem toggle_empty_gateways_witness:
  "config_gateways (sample_env\<lparr>config_gateways := Some []\<rparr>) = Some []
   \<and> since sample_picker
        (toggle (sample_env\<lparr>config_gateways := Some []\<rparr>) (\<lambda>spec. True) sample_picker) =
       [SetPreviouslyFocusedElement, AddError ''No remote kernel gateways available'']"
  using toggle_empty_gateways
    [of "sample_env\<lparr>config_gateways := Some []\<rparr>" sample_picker "\<lambda>spec. True"]
  by (simp add: sample_env_def)

text \<open>With a gateway configured, the same call does update and show the chooser.\<close>

lemma toggle_shows:
  assumes "config_gateways env = Some (g # gs)"
  shows "since p (toggle env specFilter p) =
           [SetPreviouslyFocusedElement, Update (gateway_props (g # gs)), Show]"
  using assms by (auto simp: toggle_def emit_def Let_def since_def)

subsection \<open>The token strategy\<close>

text \<open>
  Claim C7. Applying the token strategy to the options it has already produced,
  with the prompt answered the same way, gives the same options again; and one
  application is a plain overwrite of the token field (nothing at all when the
  prompt is cancelled or left empty).
\<close>

theorem promptForToken_idempotent:
  assumes "fst (promptForText env ''Token:'' p) = fst (promptForText env' ''Token:'' p')"
  shows "snd (fst (promptForToken env' (snd (fst (promptForToken env opts p))) p'))
           = snd (fst (promptForToken env opts p))
         \<and> snd (fst (promptForToken env opts p))
           = (case fst (promptForText env ''Token:'' p) of
                None \<Rightarrow> opts
              | Some tok \<Rightarrow> opts\<lparr>token := Some tok\<rparr>)"
  using assms by (auto simp: promptForToken_def split: prod.splits option.splits)

theorem promptForToken_idempotent_witness:
  "fst (promptForText (typing_env ''secret'') ''Token:'' sample_picker)
     = fst (promptForText (typing_env ''secret'') ''Token:'' (emit Show sample_picker))
   \<and> snd (fst (promptForToken (typing_env ''secret'')
        (snd (fst (promptForToken (typing_env ''secret'') sample_options sample_picker)))
        (emit Show sample_picker)))
     = sample_options\<lparr>token := Some ''secret''\<rparr>"
  using promptForToken_idempotent [of "typing_env ''secret''" sample_picker
      "typing_env ''secret''" "emit Show sample_picker" sample_options]
  by (simp add: promptForToken_def promptForText_def typing_env_def sample_env_def Let_def)

subsection \<open>What a negotiation step does to the options\<close>

lemma promptForToken_options:
  "snd (fst (promptForToken env opts p)) =
     (case fst (promptForText env ''Token:'' p) of
        None \<Rightarrow> opts
      | Some tok \<Rightarrow> opts\<lparr>token := Some tok\<rparr>)"
  by (simp add: promptForToken_def split: prod.splits option.splits)

lemma promptForCookie_options:
  "snd (fst (promptForCookie env opts p)) =
     (case fst (promptForText env ''Cookie:'' p) of
        None \<Rightarrow> opts
      | Some cookie \<Rightarrow>
          opts\<lparr>requestHeaders :=
                 Some (AList.update ''Cookie'' cookie
                         (case requestHeaders opts of None \<Rightarrow> [] | Some hs \<Rightarrow> hs)),
               xhrFactory := Some CookieXhr,
               wsFactory := Some (CookieWs cookie)\<rparr>)"
  by (simp add: promptForCookie_def Let_def split: prod.splits option.splits)

lemma promptForCredentials_options:
  "snd (fst (promptForCredentials env opts p)) = opts
   \<or> (\<exists>p'. snd (fst (promptForCredentials env opts p)) = snd (fst (promptForToken env opts p')))
   \<or> (\<exists>p'. snd (fst (promptForCredentials env opts p)) = snd (fst (promptForCookie env opts p')))"
  unfolding promptForCredentials_def Let_def
  by (simp split: prod.splits option.splits) blast

lemma keepsFields_refl: "keepsFields opts opts"
  by (simp add: keepsFields_def)

lemma keepsFields_trans: "keepsFields a b \<Longrightarrow> keepsFields b c \<Longrightarrow> keepsFields a c"
  by (simp add: keepsFields_def)

lemma token_step:
  "requestHeaders (snd (fst (promptForToken env opts p))) = requestHeaders opts
   \<and> xhrFactory (snd (fst (promptForToken env opts p))) = xhrFactory opts
   \<and> wsFactory (snd (fst (promptForToken env opts p))) = wsFactory opts
   \<and> baseUrl (snd (fst (promptForToken env opts p))) = baseUrl opts
   \<and> keepsFields opts (snd (fst (promptForToken env opts p)))"
  unfolding promptForToken_options
  by (simp add: keepsFields_def header_def split: option.splits)

lemma token_applied:
  "fst (promptForText env ''Token:'' p) = Some tok \<Longrightarrow>
     token (snd (fst (promptForToken env opts p))) = Some tok"
  unfolding promptForToken_options by simp

lemma cookie_step:
  "token (snd (fst (promptForCookie env opts p))) = token opts
   \<and> baseUrl (snd (fst (promptForCookie env opts p))) = baseUrl opts
   \<and> (\<forall>k. k \<noteq> ''Cookie'' \<longrightarrow>
         header (snd (fst (promptForCookie env opts p))) k = header opts k)
   \<and> keepsFields opts (snd (fst (promptForCookie env opts p)))"
  unfolding promptForCookie_options
  by (simp add: keepsFields_def header_def update_conv' split: option.splits)

lemma cookie_applied:
  "fst (promptForText env ''Cookie:'' p) = Some cookie \<Longrightarrow>
     header (snd (fst (promptForCookie env opts p))) ''Cookie'' = Some cookie
   \<and> xhrFactory (snd (fst (promptForCookie env opts p))) = Some CookieXhr
   \<and> wsFactory (snd (fst (promptForCookie env opts p))) = Some (CookieWs cookie)"
  unfolding promptForCookie_options
  by (simp add: header_def update_conv' split: option.splits)

lemma credentials_step: "keepsFields opts (snd (fst (promptForCredentials env opts p)))"
  using promptForCredentials_options [of env opts p] token_step cookie_step keepsFields_refl
  by metis

text \<open>
  Claim C8. A negotiation step never undefines a field or a header of the options.
  The token strategy leaves the request headers, both factory hooks and the base
  URL as they were and sets the token to the text entered. The cookie strategy
  leaves the token, the base URL and every header other than \<^verbatim>\<open>Cookie\<close> as they
  were, and sets the \<^verbatim>\<open>Cookie\<close> header and both factory hooks. Hence whatever
  strategy the user picks, and however often negotiation runs, every field and
  header that was defined stays defined.
\<close>

theorem negotiation_only_adds:
  "(requestHeaders (snd (fst (promptForToken env opts p))) = requestHeaders opts
    \<and> xhrFactory (snd (fst (promptForToken env opts p))) = xhrFactory opts
    \<and> wsFactory (snd (fst (promptForToken env opts p))) = wsFactory opts
    \<and> baseUrl (snd (fst (promptForToken env opts p))) = baseUrl opts
    \<and> (\<forall>tok. fst (promptForText env ''Token:'' p) = Some tok \<longrightarrow>
          token (snd (fst (promptForToken env opts p))) = Some tok)
    \<and> keepsFields opts (snd (fst (promptForToken env opts p))))
   \<and> (token (snd (fst (promptForCookie env opts p))) = token opts
    \<and> baseUrl (snd (fst (promptForCookie env opts p))) = baseUrl opts
    \<and> (\<forall>k. k \<noteq> ''Cookie'' \<longrightarrow>
          header (snd (fst (promptForCookie env opts p))) k = header opts k)
    \<and> (\<forall>cookie. fst (promptForText env ''Cookie:'' p) = Some cookie \<longrightarrow>
          header (snd (fst (promptForCookie env opts p))) ''Cookie'' = Some cookie
          \<and> xhrFactory (snd (fst (promptForCookie env opts p))) = Some CookieXhr
          \<and> wsFactory (snd (fst (promptForCookie env opts p))) = Some (CookieWs cookie))
    \<and> keepsFields opts (snd (fst (promptForCookie env opts p))))
   \<and> keepsFields opts (snd (fst (promptForCredentials env opts p)))
   \<and> keepsFields opts
        (snd (fst (promptForCredentials env'
           (snd (fst (promptForCredentials env opts p))) p')))"
proof -
  have twice: "keepsFields opts
        (snd (fst (promptForCredentials env'
           (snd (fst (promptForCredentials env opts p))) p')))"
    by (rule keepsFields_trans [OF credentials_step credentials_step])
  show ?thesis
    using token_step [of env opts p] cookie_step [of env opts p]
      token_applied [of env p _ opts] cookie_applied [of env p _ opts]
      credentials_step [of opts env p] twice
    by blast
qed

theorem negotiation_only_adds_witness:
  "token (snd (fst (promptForCookie (typing_env ''sid=1'')
      (sample_options\<lparr>token := Some ''secret''\<rparr>) sample_picker))) = Some ''secret''
   \<and> header (snd (fst (promptForCookie (typing_env ''sid=1'')
      (sample_options\<lparr>token := Some ''secret''\<rparr>) sample_picker))) ''Cookie'' = Some ''sid=1''
   \<and> wsFactory (snd (fst (promptForToken (typing_env ''secret'')
      (sample_options\<lparr>wsFactory := Some (CookieWs ''sid=1'')\<rparr>) sample_picker)))
       = Some (CookieWs ''sid=1'')
   \<and> token (snd (fst (promptForToken (typing_env ''secret'')
      (sample_options\<lparr>wsFactory := Some (CookieWs ''sid=1'')\<rparr>) sample_picker)))
       = Some ''secret''"
  using negotiation_only_adds [of "typing_env ''sid=1''"
      "sample_options\<lparr>token := Some ''secret''\<rparr>" sample_picker]
    negotiation_only_adds [of "typing_env ''secret''"
      "sample_options\<lparr>wsFactory := Some (CookieWs ''sid=1'')\<rparr>" sample_picker]
  by (simp add: promptForText_def typing_env_def sample_env_def Let_def sample_options_def)

subsection \<open>The WebSocket factory of the cookie strategy\<close>

lemma sameOriginUrl_websocket:
  assumes "protocol u = ''ws:'' \<or> protocol u = ''wss:''"
  shows "sameOriginUrl u
           = u\<lparr>protocol := (if protocol u = ''wss:'' then ''https:'' else ''http:'')\<rparr>"
  using assms by (auto simp: sameOriginUrl_def set_protocol_def special_protocols_def)

lemma sameOriginUrl_never_websocket:
  "protocol (sameOriginUrl u) \<noteq> ''ws:'' \<and> protocol (sameOriginUrl u) \<noteq> ''wss:''"
  by (auto simp: sameOriginUrl_def set_protocol_def special_protocols_def)

lemma promptForCookie_wsFactory:
  assumes "fst (fst (promptForCookie env opts p))"
  shows "\<exists>cookie. fst (promptForText env ''Cookie:'' p) = Some cookie
           \<and> wsFactory (snd (fst (promptForCookie env opts p))) = Some (CookieWs cookie)"
  using assms by (auto simp: promptForCookie_def Let_def split: prod.splits option.splits)

text \<open>
  Claim C6. Take the factory that a successful cookie strategy has installed and
  call it with a URL that parses. The constructor is then called with the origin
  and host of the rewritten URL, whose scheme is never \<^verbatim>\<open>ws\<close> or \<^verbatim>\<open>wss\<close>,
  whatever the scheme of the input; for a WebSocket URL it is \<^verbatim>\<open>https\<close> when the
  input's scheme is \<^verbatim>\<open>wss\<close> and \<^verbatim>\<open>http\<close> when it is \<^verbatim>\<open>ws\<close>.
\<close>

theorem cookie_wsFactory_scheme:
  assumes "fst (fst (promptForCookie env opts p))"
      and "wsFactory (snd (fst (promptForCookie env opts p))) = Some factory"
      and "new_URL url = Some parsed"
  shows "\<exists>call. call_wsFactory new_URL configured factory url protocols = Returned call
           \<and> ws_origin call = Some (origin (sameOriginUrl parsed))
           \<and> ws_host call = Some (host (sameOriginUrl parsed))
           \<and> protocol (sameOriginUrl parsed) \<noteq> ''ws:''
           \<and> protocol (sameOriginUrl parsed) \<noteq> ''wss:''
           \<and> (protocol parsed = ''wss:'' \<longrightarrow> protocol (sameOriginUrl parsed) = ''https:'')
           \<and> (protocol parsed = ''ws:'' \<longrightarrow> protocol (sameOriginUrl parsed) = ''http:'')"
proof -
  from promptForCookie_wsFactory [OF assms(1)] assms(2)
  obtain cookie where installed: "factory = CookieWs cookie" by auto
  have secure: "protocol parsed = ''wss:'' \<longrightarrow> protocol (sameOriginUrl parsed) = ''https:''"
    using sameOriginUrl_websocket [of parsed] by simp
  have plain: "protocol parsed = ''ws:'' \<longrightarrow> protocol (sameOriginUrl parsed) = ''http:''"
    using sameOriginUrl_websocket [of parsed] by simp
  show ?thesis
    using assms(3) sameOriginUrl_never_websocket [of parsed] secure plain
    by (simp add: installed cookie_wsFactory_def Let_def)
qed

theorem cookie_wsFactory_scheme_witness:
  "fst (fst (promptForCookie (typing_env ''sid=1'') sample_options sample_picker))
   \<and> wsFactory (snd (fst (promptForCookie (typing_env ''sid=1'') sample_options sample_picker)))
       = Some (CookieWs ''sid=1'')
   \<and> sample_URL ''wss://gateway.example:8888/api/kernels/1/channels''
       = Some \<lparr>protocol = ''wss:'', host = ''gateway.example:8888''\<rparr>
   \<and> call_wsFactory sample_URL (\<lambda>n. default_wsFactory) (CookieWs ''sid=1'')
        ''wss://gateway.example:8888/api/kernels/1/channels'' [] =
      Returned \<lparr>ws_url = ''wss://gateway.example:8888/api/kernels/1/channels'',
        ws_protocol = [], ws_headers = [(''Cookie'', ''sid=1'')],
        ws_origin = Some ''https://gateway.example:8888'',
        ws_host = Some ''gateway.example:8888''\<rparr>
   \<and> protocol (sameOriginUrl \<lparr>protocol = ''wss:'', host = ''gateway.example:8888''\<rparr>)
       = ''https:''
   \<and> protocol (sameOriginUrl \<lparr>protocol = ''ws:'', host = ''localhost:8888''\<rparr>)
       = ''http:''"
  using cookie_wsFactory_scheme [of "typing_env ''sid=1''" sample_options sample_picker
      "CookieWs ''sid=1''" sample_URL "''wss://gateway.example:8888/api/kernels/1/channels''"
      "\<lparr>protocol = ''wss:'', host = ''gateway.example:8888''\<rparr>" "\<lambda>n. default_wsFactory" "[]"]
    cookie_wsFactory_scheme [of "typing_env ''sid=1''" sample_options sample_picker
      "CookieWs ''sid=1''" sample_URL "''ws://localhost:8888/api/kernels/1/channels''"
      "\<lparr>protocol = ''ws:'', host = ''localhost:8888''\<rparr>" "\<lambda>n. default_wsFactory" "[]"]
  by (simp add: promptForCookie_def promptForText_def typing_env_def sample_env_def emit_def
      Let_def sample_options_def sample_URL_def cookie_wsFactory_def sameOriginUrl_def
      set_protocol_def special_protocols_def origin_def)

text \<open>
  Claim C10. The factory that a successful cookie strategy has installed hands
  the constructor the URL and the protocols it was called with, unchanged; only
  the origin and host options come from the rewritten URL. When the URL does not
  parse, the factory throws and no constructor call is made.
\<close>

theorem cookie_wsFactory_target:
  assumes "fst (fst (promptForCookie env opts p))"
      and "wsFactory (snd (fst (promptForCookie env opts p))) = Some factory"
  shows "case new_URL url of
           None \<Rightarrow>
             (\<exists>error. call_wsFactory new_URL configured factory url protocols = Threw error)
         | Some parsed \<Rightarrow>
             (\<exists>call. call_wsFactory new_URL configured factory url protocols = Returned call
                \<and> ws_url call = url
                \<and> ws_protocol call = protocols
                \<and> ws_origin call = Some (origin (sameOriginUrl parsed))
                \<and> ws_host call = Some (host (sameOriginUrl parsed)))"
proof -
  from promptForCookie_wsFactory [OF assms(1)] assms(2)
  obtain cookie where installed: "factory = CookieWs cookie" by auto
  show ?thesis
    by (simp add: installed cookie_wsFactory_def Let_def split: option.splits)
qed

theorem cookie_wsFactory_target_witness:
  "fst (fst (promptForCookie (typing_env ''sid=1'') sample_options sample_picker))
   \<and> wsFactory (snd (fst (promptForCookie (typing_env ''sid=1'') sample_options sample_picker)))
       = Some (CookieWs ''sid=1'')
   \<and> call_wsFactory sample_URL (\<lambda>n. default_wsFactory) (CookieWs ''sid=1'')
        ''ws://localhost:8888/api/kernels/1/channels'' [''v1''] =
      Returned \<lparr>ws_url = ''ws://localhost:8888/api/kernels/1/channels'',
        ws_protocol = [''v1''], ws_headers = [(''Cookie'', ''sid=1'')],
        ws_origin = Some ''http://localhost:8888'',
        ws_host = Some ''localhost:8888''\<rparr>"
  using cookie_wsFactory_target [of "typing_env ''sid=1''" sample_options sample_picker
      "CookieWs ''sid=1''" sample_URL "\<lambda>n. default_wsFactory"
      "''ws://localhost:8888/api/kernels/1/channels''" "[''v1'']"]
  by (simp add: promptForCookie_def promptForText_def typing_env_def sample_env_def emit_def
      Let_def sample_options_def sample_URL_def cookie_wsFactory_def sameOriginUrl_def
      set_protocol_def special_protocols_def origin_def)

subsection \<open>The first discovery of onGateway\<close>

text \<open>\<open>str_includes\<close> is the substring test.\<close>

lemma str_includes_iff: "str_includes s sub \<longleftrightarrow> (\<exists>pre post. s = pre @ sub @ post)"
proof (induction s)
  case Nil
  then show ?case by auto
next
  case (Cons c cs)
  show ?case
  proof
    assume "str_includes (c # cs) sub"
    then consider "take (length sub) (c # cs) = sub" | "str_includes cs sub" by auto
    then show "\<exists>pre post. c # cs = pre @ sub @ post"
    proof cases
      case 1
      then have "c # cs = [] @ sub @ drop (length sub) (c # cs)"
        by (metis append_Nil append_take_drop_id)
      then show ?thesis by blast
    next
      case 2
      with Cons obtain pre post where "cs = pre @ sub @ post" by auto
      then have "c # cs = (c # pre) @ sub @ post" by simp
      then show ?thesis by blast
    qed
  next
    assume "\<exists>pre post. c # cs = pre @ sub @ post"
    then obtain pre post where eq: "c # cs = pre @ sub @ post" by auto
    show "str_includes (c # cs) sub"
    proof (cases pre)
      case Nil
      with eq have "take (length sub) (c # cs) = sub" by simp
      then show ?thesis by simp
    next
      case (Cons d pre')
      with eq have "cs = pre' @ sub @ post" by simp
      with Cons.IH show ?thesis by auto
    qed
  qed
qed

lemma firstDiscovery_log:
  "events (snd (firstDiscovery env g p))
     = events p @ [Update loading_props, GetSpecs (firstSettings g)]"
  by (simp add: firstDiscovery_def getSpecs_def emit_def Let_def)

lemma firstDiscovery_picker:
  "onConfirmed (snd (firstDiscovery env g p)) = None
   \<and> kernelSpecFilter (snd (firstDiscovery env g p)) = kernelSpecFilter p
   \<and> picker_path (snd (firstDiscovery env g p)) = picker_path p"
  by (simp add: firstDiscovery_def getSpecs_def emit_def Let_def)

lemma onGateway_unfold:
  "onGateway env g p =
     (case fst (firstDiscovery env g p) of
        Inr specModels \<Rightarrow>
          resolveSessions env g (Some specModels) (firstSettings g) (snd (firstDiscovery env g p))
      | Inl error \<Rightarrow>
          if noPayload error then (Threw error, snd (firstDiscovery env g p))
          else if timedOut error
          then (Returned (),
                emit Cancel (emit (AddError ''Connection to gateway failed'')
                  (snd (firstDiscovery env g p))))
          else
            (case promptForCredentials env (seedOptions (gateway_options g))
                    (snd (firstDiscovery env g p)) of
               ((False, unchanged), p3) \<Rightarrow> (Returned (), p3)
             | ((True, mutated), p3) \<Rightarrow>
                 resolveSessions env g None (makeSettings mutated)
                   (emit (Update loading_props) p3)))"
proof (cases "firstDiscovery env g p")
  case (Pair reply p2)
  then show ?thesis
    by (cases reply) (simp_all add: onGateway_def firstDiscovery_def firstSettings_def Let_def)
qed

lemma loading_not_negotiation: "items loading_props \<noteq> credential_items"
  by (simp add: loading_props_def credential_items_def)

text \<open>
  Claim C2. When the first discovery fails with a response text that contains
  \<^verbatim>\<open>ETIMEDOUT\<close>, \<^verbatim>\<open>onGateway\<close> returns after exactly four calls: the loading
  message, the discovery, one \<^verbatim>\<open>addError\<close> and the cancelling of the list. No
  credential choice is presented and the discovery is not repeated.
\<close>

theorem onGateway_timeout:
  assumes "fst (firstDiscovery env g p) = Inl error"
      and "xhr error = Some request"
      and "responseText request = Some body"
      and "str_includes body ''ETIMEDOUT''"
  shows "fst (onGateway env g p) = Returned ()
         \<and> since p (snd (onGateway env g p))
             = [Update loading_props, GetSpecs (firstSettings g),
                AddError ''Connection to gateway failed'', Cancel]
         \<and> negotiations (since p (snd (onGateway env g p))) = 0
         \<and> discoveries (since p (snd (onGateway env g p))) = [GetSpecs (firstSettings g)]
         \<and> onConfirmed (snd (onGateway env g p)) = None"
proof -
  have payload: "\<not> noPayload error"
    using assms(2-4) by (cases body) (simp_all add: noPayload_def)
  have timeout: "timedOut error"
    using assms(2-4) by (simp add: timedOut_def)
  have run: "onGateway env g p =
      (Returned (), emit Cancel (emit (AddError ''Connection to gateway failed'')
         (snd (firstDiscovery env g p))))"
    using assms(1) payload timeout by (simp add: onGateway_unfold)
  have "events (snd (onGateway env g p)) =
      events p @ [Update loading_props, GetSpecs (firstSettings g),
                  AddError ''Connection to gateway failed'', Cancel]"
    by (simp add: run emit_def firstDiscovery_log)
  then have added: "since p (snd (onGateway env g p))
      = [Update loading_props, GetSpecs (firstSettings g),
         AddError ''Connection to gateway failed'', Cancel]"
    by (rule since_events)
  have "onConfirmed (snd (onGateway env g p)) = None"
    by (simp add: run emit_def firstDiscovery_picker)
  then show ?thesis
    unfolding added
    by (simp add: run negotiations_def discoveries_def loading_not_negotiation)
qed

text \<open>
  Claim C9. When the first discovery fails with an error that has no request
  object, or whose request has no response text (undefined or empty), the promise
  of \<^verbatim>\<open>onGateway\<close> is rejected with that same error. Nothing is presented or
  reported after the discovery, no kernel is handed to the caller, and since the
  confirmation callback is null, nothing the user confirms afterwards has an
  effect.
\<close>

theorem onGateway_no_payload:
  assumes "fst (firstDiscovery env g p) = Inl error"
      and "xhr error = None
           \<or> (\<exists>request. xhr error = Some request
                \<and> (responseText request = None \<or> responseText request = Some []))"
  shows "fst (onGateway env g p) = Threw error
         \<and> since p (snd (onGateway env g p))
             = [Update loading_props, GetSpecs (firstSettings g)]
         \<and> negotiations (since p (snd (onGateway env g p))) = 0
         \<and> reports (since p (snd (onGateway env g p))) = []
         \<and> filter isChosen (since p (snd (onGateway env g p))) = []
         \<and> onConfirmed (snd (onGateway env g p)) = None
         \<and> (\<forall>env' chosen. didConfirmSelection env' chosen (snd (onGateway env g p))
                = snd (onGateway env g p))"
proof -
  have payload: "noPayload error"
    using assms(2) by (auto simp: noPayload_def)
  have run: "onGateway env g p = (Threw error, snd (firstDiscovery env g p))"
    using assms(1) payload by (simp add: onGateway_unfold)
  have "events (snd (onGateway env g p)) =
      events p @ [Update loading_props, GetSpecs (firstSettings g)]"
    by (simp add: run firstDiscovery_log)
  then have added: "since p (snd (onGateway env g p))
      = [Update loading_props, GetSpecs (firstSettings g)]"
    by (rule since_events)
  have idle: "onConfirmed (snd (onGateway env g p)) = None"
    by (simp add: run firstDiscovery_picker)
  show ?thesis
    unfolding added
    by (simp add: run negotiations_def reports_def loading_not_negotiation idle
        firstDiscovery_picker)
qed


theorem onGateway_timeout_witness:
  "fst (firstDiscovery (failing_env (failure (Some ''connect ETIMEDOUT 10.0.0.1:8888'') 0))
          sample_gateway sample_picker)
     = Inl (failure (Some ''connect ETIMEDOUT 10.0.0.1:8888'') 0)
   \<and> str_includes ''connect ETIMEDOUT 10.0.0.1:8888'' ''ETIMEDOUT''
   \<and> since sample_picker
        (snd (onGateway (failing_env (failure (Some ''connect ETIMEDOUT 10.0.0.1:8888'') 0))
                sample_gateway sample_picker))
     = [Update loading_props, GetSpecs (firstSettings sample_gateway),
        AddError ''Connection to gateway failed'', Cancel]"
  using onGateway_timeout [of "failing_env (failure (Some ''connect ETIMEDOUT 10.0.0.1:8888'') 0)"
      sample_gateway sample_picker "failure (Some ''connect ETIMEDOUT 10.0.0.1:8888'') 0"
      "\<lparr>responseText = Some ''connect ETIMEDOUT 10.0.0.1:8888'', status = 0\<rparr>"
      "''connect ETIMEDOUT 10.0.0.1:8888''"]
  by (simp add: firstDiscovery_def getSpecs_def failing_env_def sample_env_def failure_def Let_def)

theorem onGateway_no_payload_witness:
  "fst (firstDiscovery (failing_env \<lparr>message = ''socket hang up'', xhr = None\<rparr>)
          sample_gateway sample_picker)
     = Inl \<lparr>message = ''socket hang up'', xhr = None\<rparr>
   \<and> onGateway (failing_env \<lparr>message = ''socket hang up'', xhr = None\<rparr>)
          sample_gateway sample_picker
     = (Threw \<lparr>message = ''socket hang up'', xhr = None\<rparr>,
        sample_picker\<lparr>events := [Update loading_props, GetSpecs (firstSettings sample_gateway)]\<rparr>)"
  using onGateway_no_payload [of "failing_env \<lparr>message = ''socket hang up'', xhr = None\<rparr>"
      sample_gateway sample_picker "\<lparr>message = ''socket hang up'', xhr = None\<rparr>"]
  by (simp add: onGateway_def noPayload_def firstDiscovery_def getSpecs_def failing_env_def
      sample_env_def emit_def sample_picker_def firstSettings_def Let_def)

subsection \<open>Listing the sessions\<close>

lemma keepSession_iff:
  "keepSession names model \<longleftrightarrow>
     identifiableName model = None \<or> (\<exists>n \<in> set names. identifiableName model = Some n)"
  by (auto simp: keepSession_def identifiableName_def Let_def split: option.splits)

lemma discover_picker:
  assumes "discover env specModels settings p = (found, p1)"
  shows "kernelSpecFilter p1 = kernelSpecFilter p \<and> picker_path p1 = picker_path p
         \<and> onConfirmed p1 = onConfirmed p"
  using assms by (auto simp: discover_def getSpecs_def emit_def Let_def split: option.splits)

lemma listSessions_listed:
  assumes "Session_listRunning env (events p @ [ListRunning settings]) settings = Inr sessionModels"
  shows "listSessions env g kernelSpecs settings p =
     (Returned (),
      p\<lparr>onConfirmed := Some (OnSession (gateway_name g)),
        events := events p @
          [ListRunning settings,
           Update (session_props
             (SessionItem (newSession settings kernelSpecs)
              # map (sessionItem env settings)
                  (filter (keepSession (map spec_name kernelSpecs)) sessionModels)))]\<rparr>)"
  using assms by (simp add: listSessions_def emit_def Let_def)

lemma listSessions_forbidden:
  assumes "Session_listRunning env (events p @ [ListRunning settings]) settings = Inl error"
      and "xhr error = Some request" and "status request = 403"
  shows "listSessions env g kernelSpecs settings p =
     (Returned (),
      p\<lparr>onConfirmed := Some (StartSession (gateway_name g)),
        events := events p @
          [ListRunning settings,
           Update (kernel_props (map (kernelItem settings (picker_path p)) kernelSpecs))]\<rparr>)"
  using assms
  by (simp add: listSessions_def onSession_def onSessionWitouthModel_def newSession_def
      emit_def Let_def)

lemma listSessions_failed:
  assumes "Session_listRunning env (events p @ [ListRunning settings]) settings = Inl error"
      and "\<not> (\<exists>request. xhr error = Some request \<and> status request = 403)"
  shows "listSessions env g kernelSpecs settings p =
     (Threw error, p\<lparr>events := events p @ [ListRunning settings]\<rparr>)"
  using assms
  by (simp add: listSessions_def emit_def Let_def split: option.splits)

lemma resolveSessions_found:
  assumes "discover env specModels settings p = (Inr models, p1)"
  shows "resolveSessions env g specModels settings p =
     (case listSessions env g (filter (kernelSpecFilter p1) (map snd (kernelspecs models)))
             settings p1 of
        (Returned u, p2) \<Rightarrow> (Returned (), p2)
      | (Threw e, p2) \<Rightarrow>
          (Returned (), emit Cancel (emit (AddError ''Connection to gateway failed'') p2)))"
  using assms by (simp add: resolveSessions_def Let_def split: prod.splits outcome.splits)


lemma sessionItem_content:
  "sessionItem env settings model =
     SessionItem
       \<lparr>info_name = Some
          (case session_path model of
             Some (c # cs) \<Rightarrow> tildify env (c # cs)
           | _ \<Rightarrow>
               (case notebook_path model of
                  Some (c # cs) \<Rightarrow> tildify env (c # cs)
                | _ \<Rightarrow> ''Session '' @ session_id model)),
        info_model = Some model, info_options = settings, info_kernelSpecs = None\<rparr>"
  by (simp add: sessionItem_def Let_def split: option.splits list.splits)

text \<open>
  Claim C4. Once the kernel specs are known and the listing succeeds, the chooser
  is updated with the synthetic new-session entry (no model, the filtered kernel
  specs) followed by one entry per kept session, in the order of the listing.
  The kept sessions are those that have no identifiable kernel name or have one
  among the names of the filtered kernel specs. The entry of a kept session
  carries that session's model and the settings, and is named by the session's
  path, else by its notebook's path, else \<^verbatim>\<open>Session\<close> and its id. So the models
  carried by the entries on screen are none for the first and then exactly the
  kept sessions.
\<close>

theorem session_choices:
  assumes "discover env specModels settings p = (Inr models, p1)"
      and "Session_listRunning env (events p1 @ [ListRunning settings]) settings
             = Inr sessionModels"
      and "kernelSpecs = filter (kernelSpecFilter p1) (map snd (kernelspecs models))"
      and "kept = filter (\<lambda>model. identifiableName model = None
                            \<or> (\<exists>n \<in> set (map spec_name kernelSpecs).
                                  identifiableName model = Some n))
                    sessionModels"
  shows "fst (resolveSessions env g specModels settings p) = Returned ()
         \<and> since p1 (snd (resolveSessions env g specModels settings p))
             = [ListRunning settings,
                Update
                  \<lparr>items =
                     SessionItem
                       \<lparr>info_name = Some ''[new session]'', info_model = None,
                        info_options = settings, info_kernelSpecs = Some kernelSpecs\<rparr>
                     # map (\<lambda>model.
                              SessionItem
                                \<lparr>info_name = Some
                                   (case session_path model of
                                      Some (c # cs) \<Rightarrow> tildify env (c # cs)
                                    | _ \<Rightarrow>
                                        (case notebook_path model of
                                           Some (c # cs) \<Rightarrow> tildify env (c # cs)
                                         | _ \<Rightarrow> ''Session '' @ session_id model)),
                                 info_model = Some model, info_options = settings,
                                 info_kernelSpecs = None\<rparr>)
                         kept,
                   infoMessage = None, loadingMessage = Some None,
                   emptyMessage = None, errorMessage = None\<rparr>]
         \<and> map item_model
               (shownItems (since p1 (snd (resolveSessions env g specModels settings p))))
             = None # map Some kept
         \<and> onConfirmed (snd (resolveSessions env g specModels settings p))
             = Some (OnSession (gateway_name g))"
proof -
  have same: "filter (keepSession (map spec_name kernelSpecs)) sessionModels = kept"
    unfolding assms(4) by (rule filter_cong) (simp_all only: keepSession_iff)
  have run: "resolveSessions env g specModels settings p =
     (Returned (),
      p1\<lparr>onConfirmed := Some (OnSession (gateway_name g)),
        events := events p1 @
          [ListRunning settings,
           Update (session_props
             (SessionItem (newSession settings kernelSpecs)
              # map (sessionItem env settings) kept))]\<rparr>)"
    unfolding resolveSessions_found [OF assms(1)] assms(3) [symmetric] same [symmetric]
    by (simp add: listSessions_listed [OF assms(2)])
  have content: "map (sessionItem env settings) kept
      = map (\<lambda>model.
               SessionItem
                 \<lparr>info_name = Some
                    (case session_path model of
                       Some (c # cs) \<Rightarrow> tildify env (c # cs)
                     | _ \<Rightarrow>
                         (case notebook_path model of
                            Some (c # cs) \<Rightarrow> tildify env (c # cs)
                          | _ \<Rightarrow> ''Session '' @ session_id model)),
                  info_model = Some model, info_options = settings,
                  info_kernelSpecs = None\<rparr>)
          kept"
    by (rule map_cong) (simp_all only: sessionItem_content)
  have added: "since p1 (snd (resolveSessions env g specModels settings p))
      = [ListRunning settings,
         Update (session_props
           (SessionItem (newSession settings kernelSpecs)
            # map (sessionItem env settings) kept))]"
    by (simp add: run since_def)
  have models: "map item_model
        (shownItems (since p1 (snd (resolveSessions env g specModels settings p))))
      = None # map Some kept"
    unfolding added
    by (simp add: shownItems_def session_props_def newSession_def sessionItem_def Let_def)
  have explicit: "since p1 (snd (resolveSessions env g specModels settings p))
      = [ListRunning settings,
         Update
           \<lparr>items =
              SessionItem
                \<lparr>info_name = Some ''[new session]'', info_model = None,
                 info_options = settings, info_kernelSpecs = Some kernelSpecs\<rparr>
              # map (\<lambda>model.
                       SessionItem
                         \<lparr>info_name = Some
                            (case session_path model of
                               Some (c # cs) \<Rightarrow> tildify env (c # cs)
                             | _ \<Rightarrow>
                                 (case notebook_path model of
                                    Some (c # cs) \<Rightarrow> tildify env (c # cs)
                                  | _ \<Rightarrow> ''Session '' @ session_id model)),
                          info_model = Some model, info_options = settings,
                          info_kernelSpecs = None\<rparr>)
                  kept,
            infoMessage = None, loadingMessage = Some None,
            emptyMessage = None, errorMessage = None\<rparr>]"
    unfolding added content by (simp add: session_props_def newSession_def)
  have "fst (resolveSessions env g specModels settings p) = Returned ()"
    "onConfirmed (snd (resolveSessions env g specModels settings p))
       = Some (OnSession (gateway_name g))"
    by (simp_all add: run)
  with explicit models show ?thesis by (simp only: simp_thms)
qed

lemma onGateway_discovered:
  assumes "fst (firstDiscovery env g p) = Inr models"
  shows "onGateway env g p =
     resolveSessions env g (Some models) (firstSettings g) (snd (firstDiscovery env g p))"
proof (cases "firstDiscovery env g p")
  case (Pair reply p2)
  with assms show ?thesis
    by (simp add: onGateway_def firstDiscovery_def firstSettings_def Let_def)
qed


theorem session_choices_witness:
  "discover sample_env (Some sample_specs) (firstSettings sample_gateway) sample_picker
     = (Inr sample_specs, sample_picker)
   \<and> Session_listRunning sample_env
        (events sample_picker @ [ListRunning (firstSettings sample_gateway)])
        (firstSettings sample_gateway) = Inr sample_sessions
   \<and> since sample_picker
        (snd (resolveSessions sample_env sample_gateway (Some sample_specs)
                (firstSettings sample_gateway) sample_picker))
       = [ListRunning (firstSettings sample_gateway),
          Update
            \<lparr>items =
               [SessionItem
                  \<lparr>info_name = Some ''[new session]'', info_model = None,
                   info_options = firstSettings sample_gateway,
                   info_kernelSpecs = Some [\<lparr>spec_name = ''py'', display_name = ''py''\<rparr>]\<rparr>,
                SessionItem
                  \<lparr>info_name = Some ''Session 1'',
                   info_model = Some
                     \<lparr>session_id = ''1'', session_path = None, notebook_path = None,
                      kernel = Some \<lparr>kernel_id = ''1'', kernel_name = Some ''py''\<rparr>\<rparr>,
                   info_options = firstSettings sample_gateway, info_kernelSpecs = None\<rparr>,
                SessionItem
                  \<lparr>info_name = Some ''Session 3'',
                   info_model = Some
                     \<lparr>session_id = ''3'', session_path = None, notebook_path = None,
                      kernel = None\<rparr>,
                   info_options = firstSettings sample_gateway, info_kernelSpecs = None\<rparr>],
             infoMessage = None, loadingMessage = Some None,
             emptyMessage = None, errorMessage = None\<rparr>]
   \<and> map item_model
        (shownItems
           (since sample_picker
              (snd (resolveSessions sample_env sample_gateway (Some sample_specs)
                      (firstSettings sample_gateway) sample_picker))))
       = [None,
          Some \<lparr>session_id = ''1'', session_path = None, notebook_path = None,
                kernel = Some \<lparr>kernel_id = ''1'', kernel_name = Some ''py''\<rparr>\<rparr>,
          Some \<lparr>session_id = ''3'', session_path = None, notebook_path = None,
                kernel = None\<rparr>]"
proof -
  have found: "discover sample_env (Some sample_specs) (firstSettings sample_gateway) sample_picker
      = (Inr sample_specs, sample_picker)"
    by (simp add: discover_def)
  have listed: "Session_listRunning sample_env
      (events sample_picker @ [ListRunning (firstSettings sample_gateway)])
      (firstSettings sample_gateway) = Inr sample_sessions"
    by (simp add: sample_env_def)
  have specs: "[\<lparr>spec_name = ''py'', display_name = ''py''\<rparr>]
      = filter (kernelSpecFilter sample_picker) (map snd (kernelspecs sample_specs))"
    by (simp add: sample_picker_def sample_specs_def py_spec_def)
  have kept: "[sample_session ''1'' (Some ''py''), sample_session ''3'' None]
      = filter (\<lambda>model. identifiableName model = None
                  \<or> (\<exists>n \<in> set (map spec_name [\<lparr>spec_name = ''py'', display_name = ''py''\<rparr>]).
                        identifiableName model = Some n))
          sample_sessions"
    by (simp add: sample_sessions_def sample_session_def identifiableName_def)
  show ?thesis
    using session_choices [OF found listed specs kept, of sample_gateway] found listed
    by (simp add: sample_session_def shownItems_def)
qed

subsection \<open>Negotiation after an ambiguous failure\<close>

lemma credential_items_head: "credential_items \<noteq> []"
  by (simp add: credential_items_def)

lemma kernel_items_not_credentials: "map (kernelItem settings pth) specs \<noteq> credential_items"
  by (cases specs) (simp_all add: credential_items_def kernelItem_def)

lemma promptForText_log:
  "\<exists>rest. events (snd (promptForText env prompt p)) = events p @ rest
     \<and> (\<forall>e \<in> set rest. \<not> isNegotiation e \<and> \<not> isGetSpecs e \<and> \<not> isAddError e)"
  by (simp add: promptForText_def emit_def Let_def split: option.splits)

lemma promptForToken_log: "snd (promptForToken env opts p) = snd (promptForText env ''Token:'' p)"
  by (simp add: promptForToken_def split: prod.splits option.splits)

lemma promptForCookie_log: "snd (promptForCookie env opts p) = snd (promptForText env ''Cookie:'' p)"
  by (simp add: promptForCookie_def Let_def split: prod.splits option.splits)

lemma promptForCredentials_unfold:
  "promptForCredentials env opts p =
     (let p2 = (emit (Update credential_props) p)
                 \<lparr>onConfirmed := Some ResolveAction, onCancelled := Some ResolveCancel\<rparr>
      in case chooser_reply env (events p2) of
           None \<Rightarrow> ((False, opts), emit Cancel (emit Cancel p2))
         | Some chosen \<Rightarrow>
             if item_action chosen = Some ''token'' then promptForToken env opts p2
             else if item_action chosen = Some ''cookie'' then promptForCookie env opts p2
             else ((False, opts), emit Cancel p2))"
  by (simp add: promptForCredentials_def Let_def split: option.splits)

lemma promptForCredentials_log:
  "\<exists>rest. events (snd (promptForCredentials env opts p))
            = events p @ Update credential_props # rest
     \<and> (\<forall>e \<in> set rest. \<not> isNegotiation e \<and> \<not> isGetSpecs e \<and> \<not> isAddError e)"
proof -
  define p2 where "p2 = (emit (Update credential_props) p)
      \<lparr>onConfirmed := Some ResolveAction, onCancelled := Some ResolveCancel\<rparr>"
  have start: "events p2 = events p @ [Update credential_props]"
    by (simp add: p2_def emit_def)
  have typed: "\<exists>rest. events (snd (promptForText env prompt p2))
            = events p @ Update credential_props # rest
     \<and> (\<forall>e \<in> set rest. \<not> isNegotiation e \<and> \<not> isGetSpecs e \<and> \<not> isAddError e)"
    for prompt
    using promptForText_log [of env prompt p2] by (simp add: start)
  show ?thesis
  proof (cases "chooser_reply env (events p2)")
    case None
    then have "snd (promptForCredentials env opts p) = emit Cancel (emit Cancel p2)"
      by (simp add: promptForCredentials_unfold p2_def [symmetric])
    then show ?thesis by (simp add: emit_def start)
  next
    case (Some chosen)
    then have "snd (promptForCredentials env opts p) = snd (promptForText env ''Token:'' p2)
        \<or> snd (promptForCredentials env opts p) = snd (promptForText env ''Cookie:'' p2)
        \<or> snd (promptForCredentials env opts p) = emit Cancel p2"
      by (simp add: promptForCredentials_unfold p2_def [symmetric] promptForToken_log
          promptForCookie_log)
    then show ?thesis
    proof (elim disjE)
      assume "snd (promptForCredentials env opts p) = snd (promptForText env ''Token:'' p2)"
      then show ?thesis using typed by simp
    next
      assume "snd (promptForCredentials env opts p) = snd (promptForText env ''Cookie:'' p2)"
      then show ?thesis using typed by simp
    next
      assume "snd (promptForCredentials env opts p) = emit Cancel p2"
      then show ?thesis by (simp add: emit_def start)
    qed
  qed
qed

lemma promptForCredentials_picker:
  "kernelSpecFilter (snd (promptForCredentials env opts p)) = kernelSpecFilter p
   \<and> picker_path (snd (promptForCredentials env opts p)) = picker_path p"
  by (simp add: promptForCredentials_unfold promptForToken_log promptForCookie_log
      promptForText_def emit_def Let_def split: option.splits)

lemma session_items_not_credentials:
  "SessionItem info # rest \<noteq> credential_items"
  by (simp add: credential_items_def)

lemma listSessions_log:
  "\<exists>rest. events (snd (listSessions env g kernelSpecs settings p))
            = events p @ ListRunning settings # rest
     \<and> (\<forall>e \<in> set rest. \<not> isNegotiation e \<and> \<not> isGetSpecs e \<and> \<not> isAddError e)"
proof (cases "Session_listRunning env (events p @ [ListRunning settings]) settings")
  case (Inr sessionModels)
  show ?thesis
    unfolding listSessions_listed [OF Inr]
    by (simp add: session_props_def session_items_not_credentials)
next
  case (Inl error)
  show ?thesis
  proof (cases "\<exists>request. xhr error = Some request \<and> status request = 403")
    case True
    then obtain request where "xhr error = Some request" "status request = 403" by auto
    from listSessions_forbidden [OF Inl this]
    show ?thesis by (simp add: kernel_props_def kernel_items_not_credentials)
  next
    case False
    from listSessions_failed [OF Inl False] show ?thesis by simp
  qed
qed

lemma resolveSessions_retry_failed:
  assumes "Kernel_getSpecs env (events p @ [GetSpecs settings]) settings = Inl error"
  shows "resolveSessions env g None settings p =
     (Returned (),
      p\<lparr>events := events p @
          [GetSpecs settings, AddError ''Connection to gateway failed'', Cancel]\<rparr>)"
  using assms by (simp add: resolveSessions_def discover_def getSpecs_def emit_def Let_def)

lemma resolveSessions_returns: "fst (resolveSessions env g specModels settings p) = Returned ()"
  by (simp add: resolveSessions_def Let_def split: prod.splits outcome.splits)

lemma resolveSessions_retry_log:
  "\<exists>rest. events (snd (resolveSessions env g None settings p))
            = events p @ GetSpecs settings # rest
     \<and> (\<forall>e \<in> set rest. \<not> isNegotiation e \<and> \<not> isGetSpecs e)"
proof (cases "Kernel_getSpecs env (events p @ [GetSpecs settings]) settings")
  case (Inl error)
  show ?thesis
    unfolding resolveSessions_retry_failed [OF Inl] by simp
next
  case (Inr models)
  define p1 where "p1 = emit (GetSpecs settings) p"
  have found: "discover env None settings p = (Inr models, p1)"
    using Inr by (simp add: discover_def getSpecs_def emit_def Let_def p1_def)
  obtain rest where rest:
    "events (snd (listSessions env g
        (filter (kernelSpecFilter p1) (map snd (kernelspecs models))) settings p1))
      = events p1 @ ListRunning settings # rest"
    "\<forall>e \<in> set rest. \<not> isNegotiation e \<and> \<not> isGetSpecs e \<and> \<not> isAddError e"
    using listSessions_log by blast
  obtain finished q where listed:
    "listSessions env g (filter (kernelSpecFilter p1) (map snd (kernelspecs models)))
       settings p1 = (finished, q)"
    by (cases "listSessions env g (filter (kernelSpecFilter p1) (map snd (kernelspecs models)))
       settings p1")
  with rest(1) have q: "events q = events p @ GetSpecs settings # ListRunning settings # rest"
    by (simp add: p1_def emit_def)
  have "snd (resolveSessions env g None settings p) = q
    \<or> snd (resolveSessions env g None settings p)
        = emit Cancel (emit (AddError ''Connection to gateway failed'') q)"
    using listed by (cases finished) (simp_all add: resolveSessions_found [OF found])
  then show ?thesis
    using rest(2) q by (auto simp: emit_def)
qed


lemma credential_props_negotiation: "items credential_props = credential_items"
  by (simp add: credential_props_def)

lemma clean_filters:
  assumes "\<forall>e \<in> set rest. \<not> isNegotiation e \<and> \<not> isGetSpecs e \<and> \<not> isAddError e"
  shows "filter isNegotiation rest = [] \<and> filter isGetSpecs rest = []
         \<and> filter isAddError rest = []"
  using assms by (simp add: filter_empty_conv)

text \<open>
  Claim C1, as amended. Let the first discovery fail with a response text that
  is not empty and does not contain \<^verbatim>\<open>ETIMEDOUT\<close>. Then \<^verbatim>\<open>onGateway\<close> returns
  normally and presents the credential choices exactly once. If the negotiation
  applied a token or a cookie, discovery runs exactly once more, with the settings
  made from the mutated options; and if that second discovery fails too, the only
  calls after the negotiation are the loading message, the discovery, one
  \<^verbatim>\<open>addError\<close> and the cancelling of the list. If the negotiation was cancelled
  (or the prompt left empty), \<^verbatim>\<open>onGateway\<close> stops there: discovery has run
  once and nothing is reported.
\<close>

theorem ambiguous_failure_negotiates_once:
  assumes "firstDiscovery env g p = (Inl error, p2)"
      and "xhr error = Some request"
      and "responseText request = Some body"
      and "body \<noteq> []"
      and "\<not> str_includes body ''ETIMEDOUT''"
      and "promptForCredentials env (seedOptions (gateway_options g)) p2
             = ((applied, mutated), p3)"
  shows "fst (onGateway env g p) = Returned ()
         \<and> negotiations (since p (snd (onGateway env g p))) = 1
         \<and> (if applied
             then discoveries (since p (snd (onGateway env g p)))
                    = [GetSpecs (firstSettings g), GetSpecs (makeSettings mutated)]
                  \<and> (\<forall>failed.
                        Kernel_getSpecs env
                          (events p3 @ [Update loading_props, GetSpecs (makeSettings mutated)])
                          (makeSettings mutated) = Inl failed \<longrightarrow>
                        since p3 (snd (onGateway env g p))
                          = [Update loading_props, GetSpecs (makeSettings mutated),
                             AddError ''Connection to gateway failed'', Cancel])
             else snd (onGateway env g p) = p3
                  \<and> discoveries (since p p3) = [GetSpecs (firstSettings g)]
                  \<and> reports (since p p3) = [])"
proof -
  have payload: "\<not> noPayload error"
    using assms(2-4) by (simp add: noPayload_def)
  have timeout: "\<not> timedOut error"
    using assms(2,3,5) by (simp add: timedOut_def)
  have run: "onGateway env g p =
      (if applied
       then resolveSessions env g None (makeSettings mutated) (emit (Update loading_props) p3)
       else (Returned (), p3))"
    using assms(1,6) payload timeout by (simp add: onGateway_unfold)
  have first: "events p2 = events p @ [Update loading_props, GetSpecs (firstSettings g)]"
    using firstDiscovery_log [of env g p] assms(1) by simp
  obtain asked where asked:
    "events p3 = events p2 @ Update credential_props # asked"
    "\<forall>e \<in> set asked. \<not> isNegotiation e \<and> \<not> isGetSpecs e \<and> \<not> isAddError e"
    using promptForCredentials_log [of env "seedOptions (gateway_options g)" p2] assms(6)
    by auto
  note quiet = clean_filters [OF asked(2)]
  have negotiated: "since p p3
      = [Update loading_props, GetSpecs (firstSettings g), Update credential_props] @ asked"
    by (rule since_events) (simp add: asked(1) first)
  show ?thesis
  proof (cases applied)
    case False
    then show ?thesis
      unfolding run
      by (simp add: negotiated negotiations_def discoveries_def reports_def quiet
          credential_props_negotiation loading_not_negotiation)
  next
    case True
    obtain listed where listed:
      "events (snd (resolveSessions env g None (makeSettings mutated)
                      (emit (Update loading_props) p3)))
         = events (emit (Update loading_props) p3) @ GetSpecs (makeSettings mutated) # listed"
      "\<forall>e \<in> set listed. \<not> isNegotiation e \<and> \<not> isGetSpecs e"
      using resolveSessions_retry_log by blast
    have calm: "filter isNegotiation listed = [] \<and> filter isGetSpecs listed = []"
      using listed(2) by (simp add: filter_empty_conv)
    have all: "since p (snd (onGateway env g p))
        = [Update loading_props, GetSpecs (firstSettings g), Update credential_props] @ asked
          @ [Update loading_props, GetSpecs (makeSettings mutated)] @ listed"
    proof (rule since_events)
      have shown: "events (emit (Update loading_props) p3)
          = events p @ [Update loading_props, GetSpecs (firstSettings g), Update credential_props]
            @ asked @ [Update loading_props]"
        by (simp add: emit_def asked(1) first)
      show "events (snd (onGateway env g p))
          = events p @ [Update loading_props, GetSpecs (firstSettings g), Update credential_props]
            @ asked @ [Update loading_props, GetSpecs (makeSettings mutated)] @ listed"
        by (simp add: run True listed(1) shown)
    qed
    have retry: "since p3 (snd (onGateway env g p))
          = [Update loading_props, GetSpecs (makeSettings mutated),
             AddError ''Connection to gateway failed'', Cancel]"
      if "Kernel_getSpecs env
            (events p3 @ [Update loading_props, GetSpecs (makeSettings mutated)])
            (makeSettings mutated) = Inl failed" for failed
    proof -
      have "Kernel_getSpecs env
            (events (emit (Update loading_props) p3) @ [GetSpecs (makeSettings mutated)])
            (makeSettings mutated) = Inl failed"
        using that by (simp add: emit_def)
      from resolveSessions_retry_failed [OF this]
      show ?thesis by (simp add: run True since_def emit_def)
    qed
    have once: "negotiations (since p (snd (onGateway env g p))) = 1"
      unfolding all
      by (simp add: negotiations_def quiet calm credential_props_negotiation
          loading_not_negotiation)
    have twice: "discoveries (since p (snd (onGateway env g p)))
        = [GetSpecs (firstSettings g), GetSpecs (makeSettings mutated)]"
      unfolding all by (simp add: discoveries_def quiet calm)
    have returned: "fst (onGateway env g p) = Returned ()"
      by (simp add: run True resolveSessions_returns)
    show ?thesis
      using True once twice returned retry by simp
  qed
qed

text \<open>
  Claim C1, as stated, promises a retry after every ambiguous failure. Here the
  gateway answers 403 with the text \<^verbatim>\<open>Forbidden\<close> and the user cancels the
  credential choices: the negotiation round takes place, and discovery has run
  once only.
\<close>

theorem cancelled_negotiation_counterexample:
  "fst (firstDiscovery (rejecting_env (failure (Some ''Forbidden'') 403) None None)
          sample_gateway sample_picker) = Inl (failure (Some ''Forbidden'') 403)
   \<and> \<not> noPayload (failure (Some ''Forbidden'') 403)
   \<and> \<not> timedOut (failure (Some ''Forbidden'') 403)
   \<and> since sample_picker
        (snd (onGateway (rejecting_env (failure (Some ''Forbidden'') 403) None None)
                sample_gateway sample_picker))
       = [Update loading_props, GetSpecs (firstSettings sample_gateway),
          Update credential_props, Cancel, Cancel]
   \<and> discoveries
        (since sample_picker
           (snd (onGateway (rejecting_env (failure (Some ''Forbidden'') 403) None None)
                   sample_gateway sample_picker)))
       = [GetSpecs (firstSettings sample_gateway)]"
  by (simp add: onGateway_def promptForCredentials_def getSpecs_def firstDiscovery_def
      firstSettings_def rejecting_env_def sample_env_def failure_def noPayload_def timedOut_def
      emit_def since_def discoveries_def sample_picker_def Let_def)


theorem ambiguous_failure_negotiates_once_witness:
  "fst (firstDiscovery (unlocking_env (failure (Some ''Forbidden'') 403))
          sample_gateway sample_picker) = Inl (failure (Some ''Forbidden'') 403)
   \<and> \<not> str_includes ''Forbidden'' ''ETIMEDOUT''
   \<and> fst (promptForCredentials (unlocking_env (failure (Some ''Forbidden'') 403))
          (seedOptions (gateway_options sample_gateway))
          (snd (firstDiscovery (unlocking_env (failure (Some ''Forbidden'') 403))
                  sample_gateway sample_picker)))
       = (True, (seedOptions sample_options)\<lparr>token := Some ''secret''\<rparr>)
   \<and> negotiations
        (since sample_picker
           (snd (onGateway (unlocking_env (failure (Some ''Forbidden'') 403))
                   sample_gateway sample_picker))) = 1
   \<and> discoveries
        (since sample_picker
           (snd (onGateway (unlocking_env (failure (Some ''Forbidden'') 403))
                   sample_gateway sample_picker)))
       = [GetSpecs (firstSettings sample_gateway),
          GetSpecs (makeSettings ((seedOptions sample_options)\<lparr>token := Some ''secret''\<rparr>))]
   \<and> since
        (snd (promptForCredentials
                (rejecting_env (failure (Some ''Forbidden'') 403) (Some token_item)
                   (Some ''secret''))
                (seedOptions (gateway_options sample_gateway))
                (snd (firstDiscovery
                        (rejecting_env (failure (Some ''Forbidden'') 403) (Some token_item)
                           (Some ''secret''))
                        sample_gateway sample_picker))))
        (snd (onGateway
                (rejecting_env (failure (Some ''Forbidden'') 403) (Some token_item)
                   (Some ''secret''))
                sample_gateway sample_picker))
       = [Update loading_props,
          GetSpecs (makeSettings ((seedOptions sample_options)\<lparr>token := Some ''secret''\<rparr>)),
          AddError ''Connection to gateway failed'', Cancel]"
  using ambiguous_failure_negotiates_once
    [where env = "unlocking_env (failure (Some ''Forbidden'') 403)"
       and g = sample_gateway and p = sample_picker
       and error = "failure (Some ''Forbidden'') 403"
       and ?p2.0 = "snd (firstDiscovery (unlocking_env (failure (Some ''Forbidden'') 403))
                          sample_gateway sample_picker)"
       and request = "\<lparr>responseText = Some ''Forbidden'', status = 403\<rparr>"
       and body = "''Forbidden''"
       and applied = True
       and mutated = "(seedOptions sample_options)\<lparr>token := Some ''secret''\<rparr>"
       and ?p3.0 = "snd (promptForCredentials (unlocking_env (failure (Some ''Forbidden'') 403))
          (seedOptions (gateway_options sample_gateway))
          (snd (firstDiscovery (unlocking_env (failure (Some ''Forbidden'') 403))
                  sample_gateway sample_picker)))"]
    ambiguous_failure_negotiates_once
    [where env = "rejecting_env (failure (Some ''Forbidden'') 403) (Some token_item)
                    (Some ''secret'')"
       and g = sample_gateway and p = sample_picker
       and error = "failure (Some ''Forbidden'') 403"
       and ?p2.0 = "snd (firstDiscovery
                          (rejecting_env (failure (Some ''Forbidden'') 403) (Some token_item)
                             (Some ''secret''))
                          sample_gateway sample_picker)"
       and request = "\<lparr>responseText = Some ''Forbidden'', status = 403\<rparr>"
       and body = "''Forbidden''"
       and applied = True
       and mutated = "(seedOptions sample_options)\<lparr>token := Some ''secret''\<rparr>"
       and ?p3.0 = "snd (promptForCredentials
                (rejecting_env (failure (Some ''Forbidden'') 403) (Some token_item)
                   (Some ''secret''))
                (seedOptions (gateway_options sample_gateway))
                (snd (firstDiscovery
                        (rejecting_env (failure (Some ''Forbidden'') 403) (Some token_item)
                           (Some ''secret''))
                        sample_gateway sample_picker)))"]
  by (simp add: firstDiscovery_def getSpecs_def unlocking_env_def rejecting_env_def
      sample_env_def guarded_getSpecs_def firstSettings_def makeSettings_def seedOptions_def
      sample_gateway_def sample_options_def failure_def promptForCredentials_def
      promptForToken_def promptForText_def token_item_def emit_def Let_def)

end
